theory Spec2Isabelle
  imports Complex_Main "HOL-Library.Log_Nat"
begin

section \<open>Strings\<close>

text \<open>
  A Go string is a byte sequence, but every loop of the program that looks inside one is a
  \<^verbatim>\<open>for _, chr := range s\<close>, which yields the Unicode code points of the string (a
  malformed byte yields U+FFFD), and \<^verbatim>\<open>string(chr)\<close> turns a code point back into
  text. A string is therefore modelled as the sequence of code points that \<^verbatim>\<open>range\<close>
  yields; a code point (Go's \<^verbatim>\<open>rune\<close>) is a natural number. \<open>lit\<close> writes an ASCII
  literal of the source as such a sequence.
\<close>

type_synonym rune = nat
type_synonym gostring = "rune list"

definition lit :: "string \<Rightarrow> gostring" where
  "lit s = map of_char s"

section \<open>float64\<close>

text \<open>
  The finite values of Go's \<^verbatim>\<open>float64\<close> (IEEE 754 binary64): \<open>Float64 n k\<close> is the
  number \<open>n / 2 ^ k\<close>. An operation computes the exact result, a quotient of two
  integers, and rounds it to 53 significant bits, to nearest and ties to even
  (\<open>round64\<close>). The exponent is not bounded: overflow to an infinity and subnormal
  numbers, which the sums and quotients of \<^verbatim>\<open>Approx\<close> reach only for strings of more
  than \<open>10 ^ 300\<close> code points, are left out. A division by zero, an infinity or NaN in
  Go, has no value here; \<^verbatim>\<open>Approx\<close> divides by the greater of two sums only.
\<close>

datatype float64 = Float64 (numer: int) (scale: nat)

text \<open>The number that a \<open>float64\<close> stands for.\<close>

definition valof :: "float64 \<Rightarrow> real" where
  "valof f = of_int (numer f) / 2 ^ scale f"

text \<open>\<open>n / d\<close> rounded to the nearest integer, a tie to the even one (\<open>0 \<le> n\<close>, \<open>0 < d\<close>).\<close>

definition roundHalfEven :: "int \<Rightarrow> int \<Rightarrow> int" where
  "roundHalfEven n d =
     (let m = n div d; r = n mod d
      in if 2 * r > d \<or> (2 * r = d \<and> odd m) then m + 1 else m)"

text \<open>\<open>n / d / 2 ^ e\<close> as a quotient of integers.\<close>

definition scaled :: "int \<Rightarrow> int \<Rightarrow> int \<Rightarrow> int \<times> int" where
  "scaled n d e = (if e \<ge> 0 then (n, d * 2 ^ nat e) else (n * 2 ^ nat (- e), d))"

text \<open>
  The exponent \<open>e\<close> with \<open>2 ^ 52 \<le> n / d / 2 ^ e < 2 ^ 53\<close>, from the bit lengths of
  \<open>n\<close> and \<open>d\<close> (\<open>0 < n\<close>, \<open>0 < d\<close>), and the rounding of \<open>n / d\<close> to 53 bits.
\<close>

definition exponent53 :: "int \<Rightarrow> int \<Rightarrow> int" where
  "exponent53 n d =
     (let e0 = bitlen n - bitlen d - 53
      in case scaled n d e0 of (n0, d0) \<Rightarrow> if n0 \<ge> 2 ^ 53 * d0 then e0 + 1 else e0)"

definition round53 :: "int \<Rightarrow> int \<Rightarrow> float64" where
  "round53 n d =
     (if n = 0 then Float64 0 0
      else
        let e = exponent53 n d
        in case scaled n d e of (n', d') \<Rightarrow>
             (if e \<ge> 0 then Float64 (roundHalfEven n' d' * 2 ^ nat e) 0
              else Float64 (roundHalfEven n' d') (nat (- e))))"

definition f64_neg :: "float64 \<Rightarrow> float64" where
  "f64_neg f = Float64 (- numer f) (scale f)"

text \<open>The rounding of a quotient of any sign.\<close>

definition round64 :: "int \<Rightarrow> int \<Rightarrow> float64" where
  "round64 n d = (if n < 0 then f64_neg (round53 (- n) d) else round53 n d)"

text \<open>The operations \<^verbatim>\<open>+\<close>, \<^verbatim>\<open>-\<close>, \<^verbatim>\<open>*\<close>, \<^verbatim>\<open>/\<close> and \<^verbatim>\<open><\<close> of float64, and the
  conversion \<^verbatim>\<open>float64(chr)\<close> of a rune, which is exact.\<close>

definition f64_add :: "float64 \<Rightarrow> float64 \<Rightarrow> float64" where
  "f64_add a b = round64 (numer a * 2 ^ scale b + numer b * 2 ^ scale a) (2 ^ (scale a + scale b))"

definition f64_sub :: "float64 \<Rightarrow> float64 \<Rightarrow> float64" where
  "f64_sub a b = round64 (numer a * 2 ^ scale b - numer b * 2 ^ scale a) (2 ^ (scale a + scale b))"

definition f64_mul :: "float64 \<Rightarrow> float64 \<Rightarrow> float64" where
  "f64_mul a b = round64 (numer a * numer b) (2 ^ (scale a + scale b))"

definition f64_div :: "float64 \<Rightarrow> float64 \<Rightarrow> float64" where
  "f64_div a b = round64 (sgn (numer b) * numer a * 2 ^ scale b) (\<bar>numer b\<bar> * 2 ^ scale a)"

definition f64_less :: "float64 \<Rightarrow> float64 \<Rightarrow> bool" where
  "f64_less a b \<longleftrightarrow> numer a * 2 ^ scale b < numer b * 2 ^ scale a"

definition f64_of_rune :: "rune \<Rightarrow> float64" where
  "f64_of_rune chr = Float64 (int chr) 0"

section \<open>Package distance\<close>

text \<open>\<^verbatim>\<open>var sum float64; for _, chr := range str { sum += float64(chr) }\<close>\<close>

fun sumRunes :: "float64 \<Rightarrow> gostring \<Rightarrow> float64" where
  "sumRunes s [] = s"
| "sumRunes s (chr # str) = sumRunes (f64_add s (f64_of_rune chr)) str"

definition Approx :: "gostring \<Rightarrow> gostring \<Rightarrow> float64" where
  "Approx str1 str2 =
     (let sum1 = sumRunes (Float64 0 0) str1;
          sum2 = sumRunes (Float64 0 0) str2
      in if f64_less sum2 sum1 then
           f64_sub (Float64 100 0) (f64_mul (f64_div sum2 sum1) (Float64 100 0))
         else if f64_less sum1 sum2 then
           f64_sub (Float64 100 0) (f64_mul (f64_div sum1 sum2) (Float64 100 0))
         else Float64 0 0)"

section \<open>Package strip\<close>

text \<open>
  \<^verbatim>\<open>html.Node\<close> of golang.org/x/net/html: the fields the program reads or writes.
  The children, a linked list through \<^verbatim>\<open>FirstChild\<close> and \<^verbatim>\<open>NextSibling\<close> in Go,
  are the list \<open>Children\<close>, in sibling order.
\<close>

datatype NodeType = ErrorNode | TextNode | DocumentNode | ElementNode | CommentNode | DoctypeNode

type_synonym Attribute = "gostring \<times> gostring \<times> gostring"

datatype Node = Node (Type: NodeType) (Data: gostring) (Attr: "Attribute list") (Children: "Node list")

text \<open>
  \<^verbatim>\<open>unicode.IsDigit\<close> of the Go library: the ASCII digits among the Latin-1 code points,
  the table of category Nd (the parameter \<open>nd\<close>) above them.
\<close>

definition IsDigit :: "(rune \<Rightarrow> bool) \<Rightarrow> rune \<Rightarrow> bool" where
  "IsDigit nd r = (if r \<le> 255 then 48 \<le> r \<and> r \<le> 57 else nd r)"

text \<open>
  The loop of \<^verbatim>\<open>Numbers\<close> over the text of one node:
  \<^verbatim>\<open>for _, chr := range node.Data { if !unicode.IsDigit(chr) { newSel += string(chr) } }\<close>.
\<close>

fun dropDigits :: "(rune \<Rightarrow> bool) \<Rightarrow> gostring \<Rightarrow> gostring \<Rightarrow> gostring" where
  "dropDigits nd newSel [] = newSel"
| "dropDigits nd newSel (chr # data) =
     dropDigits nd (if \<not> IsDigit nd chr then newSel @ [chr] else newSel) data"

text \<open>
  \<^verbatim>\<open>Numbers\<close> rewrites the tree in place; the model returns the tree as it is afterwards.
  The closure \<^verbatim>\<open>f\<close> rewrites \<^verbatim>\<open>Data\<close> of a text node and then visits every child,
  whatever the type of the node.
\<close>

fun Numbers :: "(rune \<Rightarrow> bool) \<Rightarrow> Node \<Rightarrow> Node" where
  "Numbers nd (Node t d a cs) =
     Node t (if t = TextNode then dropDigits nd [] d else d) a (map (Numbers nd) cs)"

fun Attrs :: "Node \<Rightarrow> Node" where
  "Attrs (Node t d a cs) = Node t d (if t = ElementNode then [] else a) (map Attrs cs)"

text \<open>
  \<^verbatim>\<open>Scripts\<close>: at a script element the closure runs \<^verbatim>\<open>node = nil; return\<close>. The
  assignment clears the closure's own parameter, a copy of the pointer; no field of any
  node is written, neither there nor on the way down. The tree afterwards is built from
  the same type, data, attributes and children at every node.
\<close>

fun Scripts :: "Node \<Rightarrow> Node" where
  "Scripts (Node t d a cs) =
     (if t = ElementNode \<and> d = lit ''script'' then Node t d a cs
      else Node t d a (map Scripts cs))"

text \<open>The property the transform is documented to establish: no script element in the tree.\<close>

fun hasScript :: "Node \<Rightarrow> bool" where
  "hasScript (Node t d a cs) = ((t = ElementNode \<and> d = lit ''script'') \<or> list_ex hasScript cs)"

section \<open>Errors, settings and the outside world\<close>

text \<open>
  Error values. \<open>NewNoPosf\<close> is \<^verbatim>\<open>errutil.NewNoPosf\<close> (a message),
  \<open>Err\<close> is \<^verbatim>\<open>errutil.Err\<close> (the error with the caller's position added),
  \<open>NotExist\<close> is the error of the operating system for which \<^verbatim>\<open>os.IsNotExist\<close>
  holds, \<open>PathError\<close> any other error of a file operation, \<open>LibError\<close> an error of
  a library. A run-time panic (a nil dereference) is the value \<open>Panic\<close>: it unwinds
  through every caller unchanged.
\<close>

datatype error =
    NewNoPosf gostring
  | Err error
  | NotExist gostring
  | PathError gostring
  | LibError gostring
  | Panic gostring

fun IsNotExist :: "error \<Rightarrow> bool" where
  "IsNotExist (NotExist name) = True"
| "IsNotExist e = False"

text \<open>\<^verbatim>\<open>if err != nil { return errutil.Err(err) }\<close> after a call that may have panicked.\<close>

fun unwind :: "error \<Rightarrow> error" where
  "unwind (Panic m) = Panic m"
| "unwind e = Err e"

record URL =
  Scheme :: gostring
  Host :: gostring
  Path :: gostring
  RawQuery :: gostring

text \<open>\<^verbatim>\<open>settings.Page\<close>, \<^verbatim>\<open>settings.Prog\<close> (the fields that a check reads) and the
  variables of package settings that a check only reads.\<close>

record settings_Page =
  Interval :: int
  Threshold :: float64
  RecvMail :: gostring
  Regexp :: gostring
  Negexp :: gostring
  StripFuncs :: "gostring list"
  Header :: "(gostring \<times> gostring) list"
  Selection :: gostring

record SenderMail =
  Address :: gostring
  Password :: gostring
  AuthServer :: gostring
  OutServer :: gostring

record Prog =
  SenderMail :: SenderMail
  FilePerms :: nat

record settings =
  Verbose :: bool
  Global :: Prog
  NyfikenRoot :: gostring

text \<open>The paths that \<^verbatim>\<open>initialize\<close> derives from \<^verbatim>\<open>NyfikenRoot\<close>.\<close>

definition UpdatesPath :: "settings \<Rightarrow> gostring" where
  "UpdatesPath s = NyfikenRoot s @ lit ''/updates.gob''"

definition CacheRoot :: "settings \<Rightarrow> gostring" where
  "CacheRoot s = NyfikenRoot s @ lit ''/cache/''"

definition ReadRoot :: "settings \<Rightarrow> gostring" where
  "ReadRoot s = NyfikenRoot s @ lit ''/read/''"

definition DebugCacheRoot :: "settings \<Rightarrow> gostring" where
  "DebugCacheRoot s = NyfikenRoot s @ lit ''/debug/cache/''"

definition DebugReadRoot :: "settings \<Rightarrow> gostring" where
  "DebugReadRoot s = NyfikenRoot s @ lit ''/debug/read/''"

definition Newline :: gostring where
  "Newline = lit [CHR 0x0A]"

text \<open>Durations and the clock are integers, in nanoseconds, as \<^verbatim>\<open>time.Duration\<close> is.\<close>

definition Second :: int where
  "Second = 1000000000"

definition TimeoutDuration :: int where
  "TimeoutDuration = 10 * Second"

record Page =
  ReqUrl :: URL
  Settings :: settings_Page

text \<open>A compiled regular expression, as the two methods the program calls on it
  (\<^verbatim>\<open>FindAllString\<close> always with \<^verbatim>\<open>n = -1\<close>).\<close>

record Regexp =
  FindAllString :: "gostring \<Rightarrow> gostring list"
  ReplaceAllString :: "gostring \<Rightarrow> gostring \<Rightarrow> gostring"

text \<open>
  What the program calls and this development does not define: the Go library, the
  packages cascadia, htmlutil and errutil, the packages \<^verbatim>\<open>filename\<close> and \<^verbatim>\<open>mail\<close> of
  the repository, and the network. \<open>download\<close> stands for \<^verbatim>\<open>(*Page).download\<close>
  (request, status check, charset conversion, parsing): how long the call takes and what
  it returns. \<open>goDelay\<close> is the time from starting a goroutine to its first channel send;
  \<open>selectTie\<close> says whether a \<^verbatim>\<open>select\<close> with both cases ready at the same instant
  takes the timer.
\<close>

record ext =
  unicode_Nd :: "rune \<Rightarrow> bool"
  strings_TrimSpace :: "gostring \<Rightarrow> gostring"
  strings_ToLower :: "gostring \<Rightarrow> gostring"
  html_Parse :: "gostring \<Rightarrow> error + Node"
  RenderClean :: "Node \<Rightarrow> error + gostring"
  cascadia_Compile :: "gostring \<Rightarrow> error + (Node \<Rightarrow> Node list)"
  regexp_Compile :: "gostring \<Rightarrow> error + Regexp"
  URL_String :: "URL \<Rightarrow> gostring"
  filename_Encode :: "gostring \<Rightarrow> error + gostring"
  mail_Send :: "URL \<Rightarrow> gostring \<Rightarrow> gostring \<Rightarrow> error option"
  gob_Encode :: "(gostring \<rightharpoonup> bool) \<Rightarrow> error + gostring"
  download :: "Page \<Rightarrow> int \<times> (error + Node)"
  goDelay :: int
  selectTie :: bool

text \<open>
  What a check changes: the clock, the files, the map \<^verbatim>\<open>settings.Updates\<close>, the
  lines printed and the mails delivered. \<open>unreadable\<close> and \<open>unwritable\<close> are the
  paths on which the operating system refuses a read or a write (permissions, a missing
  directory).
\<close>

record world =
  clock :: int
  files :: "gostring \<rightharpoonup> gostring"
  unreadable :: "gostring \<Rightarrow> bool"
  unwritable :: "gostring \<Rightarrow> bool"
  Updates :: "gostring \<rightharpoonup> bool"
  stdout :: "gostring list"
  outbox :: "(URL \<times> gostring \<times> gostring) list"

definition ReadFile :: "gostring \<Rightarrow> world \<Rightarrow> error + gostring" where
  "ReadFile name w =
     (if unreadable w name then Inl (PathError name)
      else case files w name of None \<Rightarrow> Inl (NotExist name) | Some buf \<Rightarrow> Inr buf)"

definition WriteFile :: "gostring \<Rightarrow> gostring \<Rightarrow> world \<Rightarrow> error + world" where
  "WriteFile name data w =
     (if unwritable w name then Inl (PathError name)
      else Inr (w\<lparr>files := (files w)(name \<mapsto> data)\<rparr>))"

text \<open>The first of some paths that cannot be written (the last one if all can).\<close>

definition firstUnwritable :: "world \<Rightarrow> gostring list \<Rightarrow> gostring" where
  "firstUnwritable w names = (case filter (unwritable w) names of [] \<Rightarrow> last names | name # _ \<Rightarrow> name)"

text \<open>\<^verbatim>\<open>if settings.Verbose { fmt.Println(a, b) }\<close>.\<close>

definition verbose :: "settings \<Rightarrow> gostring \<Rightarrow> gostring \<Rightarrow> world \<Rightarrow> world" where
  "verbose s a b w = (if Verbose s then w\<lparr>stdout := stdout w @ [a @ lit '' '' @ b]\<rparr> else w)"

text \<open>\<^verbatim>\<open>settings.SaveUpdates\<close>: \<^verbatim>\<open>os.Create\<close> empties the file before the encoder
  writes to it.\<close>

definition SaveUpdates :: "ext \<Rightarrow> settings \<Rightarrow> world \<Rightarrow> error option \<times> world" where
  "SaveUpdates x s w =
     (case WriteFile (UpdatesPath s) [] w of
        Inl err \<Rightarrow> (Some (Err err), w)
      | Inr w' \<Rightarrow>
         (case gob_Encode x (Updates w') of
            Inl err \<Rightarrow> (Some (Err err), w')
          | Inr bytes \<Rightarrow> (None, w'\<lparr>files := (files w')(UpdatesPath s \<mapsto> bytes)\<rparr>)))"

text \<open>
  \<^verbatim>\<open>strip.HTML\<close>: the text of every text node, trimmed and followed by a newline, in
  pre-order; the result is parsed and copied over the document. The error of the parser
  is dropped, so a failed parse leaves \<^verbatim>\<open>stringNode\<close> nil and \<^verbatim>\<open>*doc = *stringNode\<close>
  panics.
\<close>

fun collectText :: "(gostring \<Rightarrow> gostring) \<Rightarrow> Node \<Rightarrow> gostring \<Rightarrow> gostring" where
  "collectText trim (Node t d a cs) newSel =
     fold (collectText trim) cs (if t = TextNode then newSel @ trim d @ Newline else newSel)"

definition HTML :: "ext \<Rightarrow> Node \<Rightarrow> error + Node" where
  "HTML x doc =
     (case html_Parse x (collectText (strings_TrimSpace x) doc []) of
        Inl err \<Rightarrow> Inl (Panic (lit ''nil pointer dereference''))
      | Inr stringNode \<Rightarrow> Inr stringNode)"

section \<open>Package page\<close>

definition UrlAsFilename :: "Page \<Rightarrow> gostring" where
  "UrlAsFilename p = Host (ReqUrl p) @ Path (ReqUrl p) @ RawQuery (ReqUrl p)"

subsection \<open>makeSelection\<close>

text \<open>The CSS selection: the nodes to render.\<close>

definition cssSelection :: "ext \<Rightarrow> Page \<Rightarrow> Node \<Rightarrow> error + Node list" where
  "cssSelection x p htmlNode =
     (if Selection (Settings p) = [] then Inr [htmlNode]
      else case cascadia_Compile x (Selection (Settings p)) of
             Inl err \<Rightarrow> Inl (Err err)
           | Inr matchAll \<Rightarrow> Inr (matchAll htmlNode))"

text \<open>\<^verbatim>\<open>for _, hit := range result { s, err := htmlutil.RenderClean(hit); ...; selection += s }\<close>\<close>

fun renderHits :: "ext \<Rightarrow> gostring \<Rightarrow> Node list \<Rightarrow> error + gostring" where
  "renderHits x selection [] = Inr selection"
| "renderHits x selection (hit # result) =
     (case RenderClean x hit of
        Inl err \<Rightarrow> Inl (Err err)
      | Inr s \<Rightarrow> renderHits x (selection @ s) result)"

text \<open>The \<^verbatim>\<open>switch\<close> over the name of a strip function; an unknown name changes nothing.\<close>

definition applyStrip :: "ext \<Rightarrow> gostring \<Rightarrow> Node \<Rightarrow> error + Node" where
  "applyStrip x stripFunc doc =
     (if stripFunc = lit ''numbers'' then Inr (Numbers (unicode_Nd x) doc)
      else if stripFunc = lit ''attrs'' then Inr (Attrs doc)
      else if stripFunc = lit ''html'' then HTML x doc
      else if stripFunc = lit ''scripts'' then Inr (Scripts doc)
      else Inr doc)"

fun stripLoop :: "ext \<Rightarrow> gostring \<Rightarrow> gostring list \<Rightarrow> error + gostring" where
  "stripLoop x selection [] = Inr selection"
| "stripLoop x selection (stripFunc # funcs) =
     (case html_Parse x selection of
        Inl err \<Rightarrow> Inl (Err err)
      | Inr doc \<Rightarrow>
         (case applyStrip x (strings_ToLower x stripFunc) doc of
            Inl panic \<Rightarrow> Inl panic
          | Inr doc' \<Rightarrow>
             (case RenderClean x doc' of
                Inl err \<Rightarrow> Inl (Err err)
              | Inr selection' \<Rightarrow> stripLoop x selection' funcs)))"

text \<open>\<^verbatim>\<open>selection = ""; for _, res := range result { selection += res + settings.Newline }\<close>\<close>

fun joinMatches :: "gostring \<Rightarrow> gostring list \<Rightarrow> gostring" where
  "joinMatches selection [] = selection"
| "joinMatches selection (res # result) = joinMatches (selection @ res @ Newline) result"

definition regexpStage :: "ext \<Rightarrow> Page \<Rightarrow> gostring \<Rightarrow> error + gostring" where
  "regexpStage x p selection =
     (if Regexp (Settings p) \<noteq> [] then
        (case regexp_Compile x (Regexp (Settings p)) of
           Inl err \<Rightarrow> Inl (Err err)
         | Inr re \<Rightarrow> Inr (joinMatches [] (FindAllString re selection)))
      else Inr selection)"

definition negexpStage :: "ext \<Rightarrow> Page \<Rightarrow> gostring \<Rightarrow> error + gostring" where
  "negexpStage x p selection =
     (if Negexp (Settings p) \<noteq> [] then
        (case regexp_Compile x (Negexp (Settings p)) of
           Inl err \<Rightarrow> Inl (Err err)
         | Inr ne \<Rightarrow> Inr (ReplaceAllString ne selection []))
      else Inr selection)"

definition makeSelection :: "ext \<Rightarrow> Page \<Rightarrow> Node \<Rightarrow> error + gostring" where
  "makeSelection x p htmlNode =
     (case cssSelection x p htmlNode of
        Inl err \<Rightarrow> Inl err
      | Inr result \<Rightarrow>
     (case renderHits x [] result of
        Inl err \<Rightarrow> Inl err
      | Inr selection \<Rightarrow>
     (case stripLoop x selection (StripFuncs (Settings p)) of
        Inl err \<Rightarrow> Inl err
      | Inr selection \<Rightarrow>
     (case regexpStage x p selection of
        Inl err \<Rightarrow> Inl err
      | Inr selection \<Rightarrow> negexpStage x p selection))))"

subsection \<open>check\<close>

text \<open>The file names of \<^verbatim>\<open>check\<close>, from the encoded URL \<^verbatim>\<open>linuxPath\<close>.\<close>

definition cachePathName :: "settings \<Rightarrow> gostring \<Rightarrow> gostring" where
  "cachePathName s linuxPath = CacheRoot s @ linuxPath @ lit ''.htm''"

definition readPathName :: "settings \<Rightarrow> gostring \<Rightarrow> gostring" where
  "readPathName s linuxPath = ReadRoot s @ linuxPath @ lit ''.htm''"

definition debugCachePathName :: "settings \<Rightarrow> gostring \<Rightarrow> gostring" where
  "debugCachePathName s linuxPath = DebugCacheRoot s @ linuxPath @ lit ''.htm''"

definition debugReadPathName :: "settings \<Rightarrow> gostring \<Rightarrow> gostring" where
  "debugReadPathName s linuxPath = DebugReadRoot s @ linuxPath @ lit ''.htm''"

text \<open>
  \<^verbatim>\<open>errWrapDownload\<close> calls \<^verbatim>\<open>p.download()\<close> itself, then makes the channel and starts
  the goroutine that sends the finished result: it returns when the download has
  returned. The model returns the result that the goroutine is going to send.
\<close>

definition errWrapDownload :: "ext \<Rightarrow> Page \<Rightarrow> world \<Rightarrow> (error + Node) \<times> world" where
  "errWrapDownload x p w =
     (case download x p of (took, r) \<Rightarrow> (r, w\<lparr>clock := clock w + took\<rparr>))"

text \<open>
  The \<^verbatim>\<open>select\<close> statement of \<^verbatim>\<open>check\<close>. Go evaluates the channel operands of all
  cases once, in source order, on entering the statement: first
  \<^verbatim>\<open>errWrapDownload(p)\<close>, then \<^verbatim>\<open>time.After(settings.TimeoutDuration)\<close>, so the timer
  starts when \<^verbatim>\<open>errWrapDownload\<close> has returned. The statement then takes the case that
  becomes ready first.
\<close>

definition selectDownload :: "ext \<Rightarrow> Page \<Rightarrow> world \<Rightarrow> (error + Node) \<times> world" where
  "selectDownload x p w =
     (case errWrapDownload x p w of (r, w') \<Rightarrow>
        (let ready = clock w' + goDelay x;
             deadline = clock w' + TimeoutDuration
         in if ready < deadline \<or> (ready = deadline \<and> \<not> selectTie x) then
              (case r of
                 Inl err \<Rightarrow> (Inl (Err err), w'\<lparr>clock := ready\<rparr>)
               | Inr node \<Rightarrow> (Inr node, w'\<lparr>clock := ready\<rparr>))
            else
              (Inl (NewNoPosf (lit ''timeout: '' @ URL_String x (ReqUrl p))),
               w'\<lparr>clock := deadline\<rparr>)))"

text \<open>The page has not been checked before (the read of the comparison file failed with
  not-exist): the comparison file, the read file and the debug read file are created.\<close>

definition check_newSite ::
  "ext \<Rightarrow> settings \<Rightarrow> Page \<Rightarrow> gostring \<Rightarrow> gostring \<Rightarrow> gostring \<Rightarrow> world \<Rightarrow> error option \<times> world" where
  "check_newSite x s p selection linuxPath debug w =
     (case WriteFile (cachePathName s linuxPath) selection w of
        Inl err \<Rightarrow> (Some (Err err), w)
      | Inr w1 \<Rightarrow>
     (case WriteFile (readPathName s linuxPath) selection w1 of
        Inl err \<Rightarrow> (Some (Err err), w1)
      | Inr w2 \<Rightarrow>
     (case WriteFile (debugReadPathName s linuxPath) debug w2 of
        Inl err \<Rightarrow> (Some (Err err), w2)
      | Inr w3 \<Rightarrow>
          (None, verbose s (lit ''[+] New site added:'') (URL_String x (ReqUrl p)) w3))))"

text \<open>The mail of an update: the selection without strip functions and without the
  regular expression, sent to the page's address; the update is then cleared.\<close>

definition mailPage :: "Page \<Rightarrow> Page" where
  "mailPage p = p\<lparr>Settings := (Settings p)\<lparr>StripFuncs := [], Regexp := []\<rparr>\<rparr>"

definition check_mail ::
  "ext \<Rightarrow> Page \<Rightarrow> Node \<Rightarrow> gostring \<Rightarrow> world \<Rightarrow> error option \<times> world" where
  "check_mail x p node u w =
     (case makeSelection x (mailPage p) node of
        Inl err \<Rightarrow> (Some (unwind err), w)
      | Inr sel \<Rightarrow>
         (case mail_Send x (ReqUrl p) (RecvMail (Settings p)) sel of
            Some err \<Rightarrow> (Some (Err err), w)
          | None \<Rightarrow>
             (None, w\<lparr>outbox := outbox w @ [(ReqUrl p, RecvMail (Settings p), sel)],
                      Updates := (Updates w)(u := None)\<rparr>)))"

text \<open>The page has a mail address and all compulsory global mail settings are set.\<close>

definition mailSet :: "settings \<Rightarrow> Page \<Rightarrow> bool" where
  "mailSet s p =
     (RecvMail (Settings p) \<noteq> [] \<and>
      AuthServer (SenderMail (Global s)) \<noteq> [] \<and>
      OutServer (SenderMail (Global s)) \<noteq> [] \<and>
      Address (SenderMail (Global s)) \<noteq> [])"

text \<open>The distance is above the threshold.\<close>

definition check_updated ::
  "ext \<Rightarrow> settings \<Rightarrow> Page \<Rightarrow> Node \<Rightarrow> gostring \<Rightarrow> gostring \<Rightarrow> world \<Rightarrow> error option \<times> world" where
  "check_updated x s p node selection linuxPath w =
     (let u = URL_String x (ReqUrl p);
          w1 = verbose s (lit ''[!] Updated:'') u (w\<lparr>Updates := (Updates w)(u \<mapsto> True)\<rparr>)
      in case (if mailSet s p then check_mail x p node u w1 else (None, w1)) of
           (Some err, w2) \<Rightarrow> (Some err, w2)
         | (None, w2) \<Rightarrow>
            (case SaveUpdates x s w2 of
               (Some err, w3) \<Rightarrow> (Some (Err err), w3)
             | (None, w3) \<Rightarrow>
                (case WriteFile (cachePathName s linuxPath) selection w3 of
                   Inl err \<Rightarrow> (Some (Err err), w3)
                 | Inr w4 \<Rightarrow> (None, w4))))"

text \<open>From the read of the comparison file to the end of \<^verbatim>\<open>check\<close>.\<close>

definition check_compare ::
  "ext \<Rightarrow> settings \<Rightarrow> Page \<Rightarrow> Node \<Rightarrow> gostring \<Rightarrow> gostring \<Rightarrow> gostring \<Rightarrow> world \<Rightarrow> error option \<times> world" where
  "check_compare x s p node selection linuxPath debug w =
     (case ReadFile (cachePathName s linuxPath) w of
        Inl err \<Rightarrow>
          (if \<not> IsNotExist err then (Some (Err err), w)
           else check_newSite x s p selection linuxPath debug w)
      | Inr buf \<Rightarrow>
          (let dist = Approx buf selection
           in if f64_less (Threshold (Settings p)) dist then
                check_updated x s p node selection linuxPath w
              else (None, verbose s (lit ''[-] No update:'') (URL_String x (ReqUrl p)) w)))"

definition check :: "ext \<Rightarrow> settings \<Rightarrow> Page \<Rightarrow> world \<Rightarrow> error option \<times> world" where
  "check x s p w =
     (case selectDownload x p (verbose s (lit ''[/] Downloading:'') (URL_String x (ReqUrl p)) w) of
        (Inl err, w1) \<Rightarrow> (Some err, w1)
      | (Inr node, w1) \<Rightarrow>
     (case makeSelection x p node of
        Inl err \<Rightarrow> (Some (unwind err), w1)
      | Inr selection \<Rightarrow>
     (case filename_Encode x (UrlAsFilename p) of
        Inl err \<Rightarrow> (Some (Err err), w1)
      | Inr linuxPath \<Rightarrow>
     (case RenderClean x node of
        Inl err \<Rightarrow> (Some (Err err), w1)
      | Inr debug \<Rightarrow>
     (case WriteFile (debugCachePathName s linuxPath) debug w1 of
        Inl err \<Rightarrow> (Some (Err err), w1)
      | Inr w2 \<Rightarrow>
          (if length selection = 0 then
             (Some (NewNoPosf (lit ''Update was empty. URL: '' @ URL_String x (ReqUrl p))), w2)
           else check_compare x s p node selection linuxPath debug w2))))))"

subsection \<open>ForceUpdate\<close>

text \<open>
  \<^verbatim>\<open>ForceUpdate\<close> starts one goroutine \<^verbatim>\<open>p.Check(errChan)\<close> for each page and one
  goroutine that receives \<^verbatim>\<open>numChecks\<close> values from the channel and logs those that are
  not nil; then it returns nil. What the goroutines do is given here for the schedule that
  runs the checks one after the other, in the order of the list: \<open>runChecks\<close> is the
  sequence of values sent to the channel, \<open>listen\<close> the loop of the receiving goroutine
  with its log.
\<close>

fun runChecks :: "ext \<Rightarrow> settings \<Rightarrow> Page list \<Rightarrow> world \<Rightarrow> error option list \<times> world" where
  "runChecks x s [] w = ([], w)"
| "runChecks x s (p # pages) w =
     (case check x s p w of (err, w') \<Rightarrow>
        (case runChecks x s pages w' of (sent, w'') \<Rightarrow> (err # sent, w'')))"

fun listen :: "nat \<Rightarrow> error option list \<Rightarrow> error list \<Rightarrow> error list" where
  "listen 0 ch logged = logged"
| "listen (Suc n) [] logged = logged"
| "listen (Suc n) (err # ch) logged =
     listen n ch (case err of None \<Rightarrow> logged | Some e \<Rightarrow> logged @ [Err e])"

fun countChecks :: "nat \<Rightarrow> Page list \<Rightarrow> nat" where
  "countChecks numChecks [] = numChecks"
| "countChecks numChecks (p # pages) = countChecks (numChecks + 1) pages"

text \<open>The value returned to the caller, and the log and the world once the goroutines
  have run.\<close>

record forced =
  returned :: "error option"
  logged :: "error list"
  after :: world

definition ForceUpdate :: "ext \<Rightarrow> settings \<Rightarrow> Page list \<Rightarrow> world \<Rightarrow> forced" where
  "ForceUpdate x s pages w =
     (let numChecks = countChecks 0 pages
      in case runChecks x s pages w of (sent, w') \<Rightarrow>
           \<lparr>returned = None, logged = listen numChecks sent [], after = w'\<rparr>)"

text \<open>The errors among the values sent to the channel, as the receiving goroutine logs them.\<close>

definition failures :: "error option list \<Rightarrow> error list" where
  "failures sent = concat (map (\<lambda>r. case r of None \<Rightarrow> [] | Some e \<Rightarrow> [Err e]) sent)"

section \<open>An instance of the libraries, for running the model\<close>

text \<open>
  Small stand-ins for the library functions, enough to run \<open>check\<close> on plain-text
  pages: a renderer that writes the text nodes, a parser that puts its input into the body
  of an empty document, a selector that matches the document, regular expressions that
  are one literal (optionally in one pair of parentheses), and a server that answers in
  two seconds.
\<close>

fun plainRender :: "Node \<Rightarrow> gostring" where
  "plainRender (Node t d a cs) = (if t = TextNode then d else []) @ concat (map plainRender cs)"

definition plainDoc :: "Node list \<Rightarrow> Node" where
  "plainDoc body =
     Node DocumentNode [] []
       [Node ElementNode (lit ''html'') []
          [Node ElementNode (lit ''head'') [] [], Node ElementNode (lit ''body'') [] body]]"

definition plainParse :: "gostring \<Rightarrow> Node" where
  "plainParse text = plainDoc (if text = [] then [] else [Node TextNode text [] []])"

fun findLiteral :: "gostring \<Rightarrow> gostring \<Rightarrow> gostring list" where
  "findLiteral [] text = []"
| "findLiteral (c # cs) [] = []"
| "findLiteral (c # cs) (t # ts) =
     (if take (Suc (length cs)) (t # ts) = c # cs
      then (c # cs) # findLiteral (c # cs) (drop (length cs) ts)
      else findLiteral (c # cs) ts)"

fun replaceLiteral :: "gostring \<Rightarrow> gostring \<Rightarrow> gostring \<Rightarrow> gostring" where
  "replaceLiteral [] text repl = text"
| "replaceLiteral (c # cs) [] repl = []"
| "replaceLiteral (c # cs) (t # ts) repl =
     (if take (Suc (length cs)) (t # ts) = c # cs
      then repl @ replaceLiteral (c # cs) (drop (length cs) ts) repl
      else t # replaceLiteral (c # cs) ts repl)"

definition literalCompile :: "gostring \<Rightarrow> error + Regexp" where
  "literalCompile expr =
     (let body = (if 2 \<le> length expr \<and> hd expr = 40 \<and> last expr = 41
                  then butlast (tl expr) else expr)
      in if list_ex (\<lambda>c. c \<in> set (lit ''()[]{}*+?|^$.'')) body
         then Inl (LibError (lit ''error parsing regexp''))
         else Inr \<lparr>FindAllString = findLiteral body, ReplaceAllString = replaceLiteral body\<rparr>)"

definition asciiSpace :: "rune \<Rightarrow> bool" where
  "asciiSpace c = (c = 32 \<or> (9 \<le> c \<and> c \<le> 13))"

definition asciiLower :: "rune \<Rightarrow> rune" where
  "asciiLower c = (if 65 \<le> c \<and> c \<le> 90 then c + 32 else c)"

definition plainURL :: "URL \<Rightarrow> gostring" where
  "plainURL u =
     Scheme u @ lit ''://'' @ Host u @ Path u @
     (if RawQuery u = [] then [] else lit ''?'' @ RawQuery u)"

definition plainEncode :: "gostring \<Rightarrow> gostring" where
  "plainEncode name = concat (map (\<lambda>c. if c = 47 then lit ''%2F'' else [c]) name)"

definition examplePost :: Node where
  "examplePost = plainDoc [Node ElementNode (lit ''b'') [] [Node TextNode (lit ''Post #123'') [] []]]"

definition exampleExt :: ext where
  "exampleExt =
     \<lparr>unicode_Nd = (\<lambda>r. 1632 \<le> r \<and> r \<le> 1641),
      strings_TrimSpace = (\<lambda>t. rev (dropWhile asciiSpace (rev (dropWhile asciiSpace t)))),
      strings_ToLower = map asciiLower,
      html_Parse = (\<lambda>text. Inr (plainParse text)),
      RenderClean = (\<lambda>node. Inr (plainRender node)),
      cascadia_Compile = (\<lambda>sel. Inr (\<lambda>node. [node])),
      regexp_Compile = literalCompile,
      URL_String = plainURL,
      filename_Encode = (\<lambda>name. Inr (plainEncode name)),
      mail_Send = (\<lambda>u to body. None),
      gob_Encode = (\<lambda>updates. Inr (lit ''gob'')),
      download = (\<lambda>p. (2 * Second, Inr examplePost)),
      goDelay = 0,
      selectTie = False\<rparr>"

definition exampleSettings :: settings where
  "exampleSettings =
     \<lparr>Verbose = True,
      Global = \<lparr>SenderMail = \<lparr>Address = lit ''bot@example.org'', Password = lit ''secret'',
                               AuthServer = lit ''smtp.example.org'',
                               OutServer = lit ''smtp.example.org:587''\<rparr>,
                FilePerms = 384\<rparr>,
      NyfikenRoot = lit ''/home/u/.config/nyfiken''\<rparr>"

definition examplePage :: Page where
  "examplePage =
     \<lparr>ReqUrl = \<lparr>Scheme = lit ''http'', Host = lit ''example.org'', Path = lit ''/forum'',
                RawQuery = []\<rparr>,
      Settings = \<lparr>Interval = 60 * Second, Threshold = Float64 0 0, RecvMail = lit ''me@example.org'',
                  Regexp = [], Negexp = [], StripFuncs = [lit ''html'', lit ''numbers''],
                  Header = [], Selection = []\<rparr>\<rparr>"

text \<open>A world with the directories of nyfiken in place and no file in them.\<close>

definition emptyWorld :: world where
  "emptyWorld =
     \<lparr>clock = 0, files = Map.empty, unreadable = (\<lambda>name. False), unwritable = (\<lambda>name. False),
      Updates = Map.empty, stdout = [], outbox = []\<rparr>"

definition exampleCachePath :: gostring where
  "exampleCachePath = lit ''/home/u/.config/nyfiken/cache/example.org%2Fforum.htm''"

text \<open>A page with a script element.\<close>

definition scriptPage :: Node where
  "scriptPage =
     plainDoc [Node ElementNode (lit ''script'') [] [Node TextNode (lit ''alert(1)'') [] []],
               Node ElementNode (lit ''p'') [] [Node TextNode (lit ''hello'') [] []]]"

text \<open>The pages of \<^verbatim>\<open>http://example.org/a?b\<close> and \<^verbatim>\<open>http://example.org/ab\<close>.\<close>

definition pageQuery :: Page where
  "pageQuery = examplePage\<lparr>ReqUrl := \<lparr>Scheme = lit ''http'', Host = lit ''example.org'',
                                      Path = lit ''/a'', RawQuery = lit ''b''\<rparr>\<rparr>"

definition pagePath :: Page where
  "pagePath = examplePage\<lparr>ReqUrl := \<lparr>Scheme = lit ''http'', Host = lit ''example.org'',
                                     Path = lit ''/ab'', RawQuery = []\<rparr>\<rparr>"

text \<open>A server that takes eleven seconds to answer.\<close>

definition slowExt :: ext where
  "slowExt = exampleExt\<lparr>download := (\<lambda>p. (11 * Second, Inr examplePost))\<rparr>"



text \<open>A world in which the cache directory is missing: nothing can be read from it or
  written to it.\<close>

definition noCacheDir :: world where
  "noCacheDir =
     emptyWorld\<lparr>unwritable :=
       (\<lambda>name. take (length (CacheRoot exampleSettings)) name = CacheRoot exampleSettings)\<rparr>"

text \<open>A world in which the directory of the debug files is missing.\<close>

definition noDebugDir :: world where
  "noDebugDir =
     emptyWorld\<lparr>unwritable :=
       (\<lambda>name. take (length (DebugCacheRoot exampleSettings)) name =
                 DebugCacheRoot exampleSettings)\<rparr>"

text \<open>A world in which the page has been checked before.\<close>

definition oldBaseline :: gostring where
  "oldBaseline = lit ''Welcome'' @ Newline"

definition checkedWorld :: world where
  "checkedWorld = emptyWorld\<lparr>files := [exampleCachePath \<mapsto> oldBaseline]\<rparr>"

text \<open>A page whose selection is empty: the regular expression matches nothing.\<close>

definition emptyPage :: Page where
  "emptyPage = examplePage\<lparr>Settings := (Settings examplePage)\<lparr>Regexp := lit ''(love)''\<rparr>\<rparr>"

section \<open>Evaluation of the examples\<close>

lemma lit_Nil: "lit [] = []"
  by (simp add: lit_def)

lemma lit_Cons: "lit (c # cs) = of_char c # lit cs"
  by (simp add: lit_def)

lemmas example_defs =
  exampleExt_def exampleSettings_def examplePage_def emptyWorld_def exampleCachePath_def
  examplePost_def plainDoc_def plainParse_def plainURL_def plainEncode_def asciiSpace_def
  asciiLower_def Newline_def Second_def TimeoutDuration_def lit_Nil lit_Cons

section \<open>Properties of float64\<close>

text \<open>The scaled quotient that is rounded lies between \<open>2 ^ 52\<close> and \<open>2 ^ 53\<close>, so the
  result has 53 bits; it is within \<open>2 ^ -53\<close> of the exact quotient, relatively, and
  is the exact quotient when that is an integer below \<open>2 ^ 53\<close>.\<close>

lemma roundHalfEven_error:
  assumes "0 < d"
  shows "\<bar>real_of_int (roundHalfEven n d) - real_of_int n / real_of_int d\<bar> \<le> 1 / 2"
proof -
  define m r where "m = n div d" and "r = n mod d"
  have r: "0 \<le> r" "r < d"
    using assms by (simp_all add: r_def)
  have "n = d * m + r"
    by (simp add: m_def r_def)
  then have "real_of_int n = real_of_int d * real_of_int m + real_of_int r"
    by (metis of_int_add of_int_mult)
  then have q: "real_of_int n / real_of_int d = real_of_int m + real_of_int r / real_of_int d"
    using assms by (simp add: field_simps)
  have frac: "0 \<le> real_of_int r / real_of_int d" "real_of_int r / real_of_int d < 1"
    using r assms by simp_all
  show ?thesis
  proof (cases "2 * r > d \<or> (2 * r = d \<and> odd m)")
    case True
    then have "2 * real_of_int r \<ge> real_of_int d"
      by (metis less_imp_le of_int_le_iff of_int_mult of_int_numeral order_refl)
    then have "real_of_int r / real_of_int d \<ge> 1 / 2"
      using assms by (simp add: field_simps)
    moreover have "roundHalfEven n d = m + 1"
      using True by (simp add: roundHalfEven_def m_def r_def Let_def)
    ultimately show ?thesis
      using q frac by simp
  next
    case False
    then have "2 * r \<le> d"
      by auto
    then have "2 * real_of_int r \<le> real_of_int d"
      by (metis of_int_le_iff of_int_mult of_int_numeral)
    then have "real_of_int r / real_of_int d \<le> 1 / 2"
      using assms by (simp add: field_simps)
    moreover have "roundHalfEven n d = m"
      using False by (simp add: roundHalfEven_def m_def r_def Let_def)
    ultimately show ?thesis
      using q frac by simp
  qed
qed

lemma scaled_ratio:
  assumes "0 < d" and "scaled n d e = (n', d')"
  shows "0 < d'" and "real_of_int n' / real_of_int d' = real_of_int n / real_of_int d * 2 powi (- e)"
proof -
  show "0 < d'"
    using assms by (auto simp: scaled_def split: if_splits)
  show "real_of_int n' / real_of_int d' = real_of_int n / real_of_int d * 2 powi (- e)"
  proof (cases "0 \<le> e")
    case True
    then have "n' = n" "d' = d * 2 ^ nat e"
      using assms(2) by (simp_all add: scaled_def)
    moreover have "(2::real) powi (- e) = 1 / 2 ^ nat e"
      using True by (simp add: power_int_minus_divide power_int_nonneg_exp)
    ultimately show ?thesis
      by simp
  next
    case False
    then have "n' = n * 2 ^ nat (- e)" "d' = d"
      using assms(2) by (simp_all add: scaled_def)
    moreover have "(2::real) powi (- e) = 2 ^ nat (- e)"
      using False by (simp add: power_int_nonneg_exp)
    ultimately show ?thesis
      by simp
  qed
qed

lemma bitlen_powi:
  assumes "0 < x"
  shows "2 powi (bitlen x - 1) \<le> real_of_int x" and "real_of_int x < 2 powi (bitlen x)"
proof -
  have b: "1 \<le> bitlen x"
    using assms bitlen_eq_zero_iff [of x] bitlen_nonneg [of x] by linarith
  have "(2::int) ^ nat (bitlen x - 1) \<le> x" "x < 2 ^ nat (bitlen x)"
    using bitlen_bounds [OF assms] by simp_all
  then have "real_of_int (2 ^ nat (bitlen x - 1)) \<le> real_of_int x"
    "real_of_int x < real_of_int (2 ^ nat (bitlen x))"
    by (simp_all only: of_int_le_iff of_int_less_iff)
  then show "2 powi (bitlen x - 1) \<le> real_of_int x" "real_of_int x < 2 powi (bitlen x)"
    using b by (simp_all add: power_int_nonneg_exp)
qed

lemma exponent53_normal:
  assumes "0 < n" and "0 < d"
  shows "2 ^ 52 \<le> real_of_int n / real_of_int d * 2 powi (- exponent53 n d)"
proof -
  define e0 where "e0 = bitlen n - bitlen d - 53"
  define y where "y = real_of_int n / real_of_int d * 2 powi (- e0)"
  obtain n0 d0 where s: "scaled n d e0 = (n0, d0)"
    by (cases "scaled n d e0")
  note r0 = scaled_ratio [OF assms(2) s]
  have "2 powi (bitlen n - 1) / 2 powi (bitlen d) \<le> real_of_int n / real_of_int d"
    using bitlen_powi [OF assms(1)] bitlen_powi [OF assms(2)] assms
    by (intro frac_le) simp_all
  moreover have "(2::real) powi (bitlen n - 1) / 2 powi (bitlen d) = 2 powi (e0 + 52)"
  proof -
    have eq: "bitlen n - 1 - bitlen d = e0 + 52"
      by (simp add: e0_def)
    have "(2::real) powi (bitlen n - 1 - bitlen d) = 2 powi (bitlen n - 1) / 2 powi (bitlen d)"
      by (rule power_int_diff) simp
    then show ?thesis
      by (simp only: eq)
  qed
  ultimately have "2 powi (e0 + 52) \<le> real_of_int n / real_of_int d"
    by simp
  then have "2 powi (e0 + 52) * 2 powi (- e0) \<le> real_of_int n / real_of_int d * 2 powi (- e0)"
    by (rule mult_right_mono) simp
  moreover have "(2::real) powi (e0 + 52) * 2 powi (- e0) = 2 ^ 52"
    by (simp add: power_int_add [symmetric])
  ultimately have low: "2 ^ 52 \<le> real_of_int n / real_of_int d * 2 powi (- e0)"
    by simp
  show ?thesis
  proof (cases "n0 \<ge> 2 ^ 53 * d0")
    case True
    then have e: "exponent53 n d = e0 + 1"
      using s by (simp add: exponent53_def e0_def)
    from True have "real_of_int (2 ^ 53 * d0) \<le> real_of_int n0"
      by (simp only: of_int_le_iff)
    then have "2 ^ 53 \<le> real_of_int n0 / real_of_int d0"
      using r0(1) by (simp add: field_simps)
    then have y: "2 ^ 53 \<le> y"
      using r0(2) by (simp add: y_def)
    have "(2::real) powi (- e0 - 1) = 2 powi (- e0) / 2 powi 1"
      by (rule power_int_diff) simp
    then have h: "(2::real) powi (- (e0 + 1)) = 2 powi (- e0) / 2"
      by simp
    have "real_of_int n / real_of_int d * 2 powi (- (e0 + 1)) = y / 2"
      by (simp only: h y_def times_divide_eq_right)
    moreover have "2 ^ 52 \<le> y / 2"
      using y by simp
    ultimately show ?thesis
      by (simp only: e)
  next
    case False
    then have "exponent53 n d = e0"
      using s by (simp add: exponent53_def e0_def)
    with low show ?thesis
      by simp
  qed
qed

lemma exponent53_below:
  assumes "0 < n" and "0 < d"
  shows "real_of_int n / real_of_int d * 2 powi (- exponent53 n d) < 2 ^ 53"
proof -
  define e0 where "e0 = bitlen n - bitlen d - 53"
  define y where "y = real_of_int n / real_of_int d * 2 powi (- e0)"
  obtain n0 d0 where s: "scaled n d e0 = (n0, d0)"
    by (cases "scaled n d e0")
  note r0 = scaled_ratio [OF assms(2) s]
  have "real_of_int n / real_of_int d < 2 powi (bitlen n) / 2 powi (bitlen d - 1)"
    using bitlen_powi [OF assms(1)] bitlen_powi [OF assms(2)] assms
    by (intro frac_less) simp_all
  moreover have "(2::real) powi (bitlen n) / 2 powi (bitlen d - 1) = 2 powi (e0 + 54)"
  proof -
    have eq: "bitlen n - (bitlen d - 1) = e0 + 54"
      by (simp add: e0_def)
    have "(2::real) powi (bitlen n - (bitlen d - 1)) = 2 powi (bitlen n) / 2 powi (bitlen d - 1)"
      by (rule power_int_diff) simp
    then show ?thesis
      by (simp only: eq)
  qed
  ultimately have "real_of_int n / real_of_int d < 2 powi (e0 + 54)"
    by simp
  then have "real_of_int n / real_of_int d * 2 powi (- e0) < 2 powi (e0 + 54) * 2 powi (- e0)"
    by (rule mult_strict_right_mono) simp
  moreover have "(2::real) powi (e0 + 54) * 2 powi (- e0) = 2 ^ 54"
    by (simp add: power_int_add [symmetric])
  ultimately have high: "y < 2 ^ 54"
    by (simp add: y_def)
  show ?thesis
  proof (cases "n0 \<ge> 2 ^ 53 * d0")
    case True
    then have e: "exponent53 n d = e0 + 1"
      using s by (simp add: exponent53_def e0_def)
    have "(2::real) powi (- e0 - 1) = 2 powi (- e0) / 2 powi 1"
      by (rule power_int_diff) simp
    then have h: "(2::real) powi (- (e0 + 1)) = 2 powi (- e0) / 2"
      by simp
    have "real_of_int n / real_of_int d * 2 powi (- (e0 + 1)) = y / 2"
      by (simp only: h y_def times_divide_eq_right)
    moreover have "y / 2 < 2 ^ 53"
      using high by simp
    ultimately show ?thesis
      by (simp only: e)
  next
    case False
    then have e: "exponent53 n d = e0"
      using s by (simp add: exponent53_def e0_def)
    from False have "n0 < 2 ^ 53 * d0"
      by simp
    then have "real_of_int n0 < real_of_int (2 ^ 53 * d0)"
      by (simp only: of_int_less_iff)
    then have "real_of_int n0 / real_of_int d0 < 2 ^ 53"
      using r0(1) by (simp add: field_simps)
    then show ?thesis
      using r0(2) by (simp only: e)
  qed
qed

lemma valof_round53:
  assumes "n \<noteq> 0" and "scaled n d (exponent53 n d) = (n', d')"
  shows "valof (round53 n d) = real_of_int (roundHalfEven n' d') * 2 powi (exponent53 n d)"
proof (cases "0 \<le> exponent53 n d")
  case True
  then show ?thesis
    using assms by (simp add: round53_def valof_def power_int_nonneg_exp)
next
  case False
  then have "(2::real) powi (exponent53 n d) = 1 / 2 ^ nat (- exponent53 n d)"
    using power_int_minus_divide [of "2::real" "- exponent53 n d"]
    by (simp add: power_int_nonneg_exp)
  then show ?thesis
    using False assms by (simp add: round53_def valof_def)
qed

lemma round53_error:
  assumes "0 < n" and "0 < d"
  shows "\<bar>valof (round53 n d) - real_of_int n / real_of_int d\<bar> \<le> real_of_int n / real_of_int d / 2 ^ 53"
proof -
  define e where "e = exponent53 n d"
  define x where "x = real_of_int n / real_of_int d * 2 powi (- e)"
  obtain n' d' where s: "scaled n d e = (n', d')"
    by (cases "scaled n d e")
  define m where "m = real_of_int (roundHalfEven n' d')"
  note r = scaled_ratio [OF assms(2) s]
  have v: "valof (round53 n d) = m * 2 powi e"
    using valof_round53 [of n d n' d'] assms(1) s by (simp add: e_def m_def)
  have m: "\<bar>m - x\<bar> \<le> 1 / 2"
    using roundHalfEven_error [OF r(1), of n'] r(2) by (simp add: m_def x_def)
  have x: "2 ^ 52 \<le> x"
    using exponent53_normal [OF assms] by (simp add: x_def e_def)
  have pos: "0 < (2::real) powi e"
    by simp
  have q: "real_of_int n / real_of_int d = x * 2 powi e"
    by (simp add: x_def mult.assoc power_int_add [symmetric])
  have "\<bar>valof (round53 n d) - real_of_int n / real_of_int d\<bar> = \<bar>m - x\<bar> * 2 powi e"
    using pos by (simp add: v q left_diff_distrib [symmetric] abs_mult)
  also have "\<dots> \<le> 1 / 2 * 2 powi e"
    using m pos by (simp add: mult_right_mono)
  also have "\<dots> \<le> x / 2 ^ 53 * 2 powi e"
    using x pos by (intro mult_right_mono) simp_all
  also have "\<dots> = real_of_int n / real_of_int d / 2 ^ 53"
    by (simp add: q)
  finally show ?thesis .
qed


lemma valof_neg: "valof (f64_neg f) = - valof f"
  by (simp add: f64_neg_def valof_def)

lemma valof_round53_zero: "valof (round53 0 d) = 0"
  by (simp add: round53_def valof_def)

lemma round64_error:
  assumes "0 < d"
  shows "\<bar>valof (round64 n d) - real_of_int n / real_of_int d\<bar> \<le> \<bar>real_of_int n / real_of_int d\<bar> / 2 ^ 53"
proof -
  consider "n < 0" | "n = 0" | "0 < n"
    by linarith
  then show ?thesis
  proof cases
    case 1
    then have "0 < - n"
      by simp
    from round53_error [OF this assms] 1 assms show ?thesis
      by (simp add: round64_def valof_neg abs_if split: if_splits)
  next
    case 2
    then show ?thesis
      by (simp add: round64_def valof_round53_zero)
  next
    case 3
    from round53_error [OF this assms] 3 assms show ?thesis
      by (simp add: round64_def)
  qed
qed

lemma roundHalfEven_exact: "0 < d \<Longrightarrow> roundHalfEven (m * d) d = m"
  by (simp add: roundHalfEven_def Let_def)

lemma round64_exact:
  assumes "0 < d" and "0 \<le> k" and "k < 2 ^ 53"
  shows "valof (round64 (k * d) d) = real_of_int k"
proof (cases "k = 0")
  case True
  then show ?thesis
    by (simp add: round64_def valof_round53_zero)
next
  case False
  with assms have k: "0 < k" and n: "0 < k * d"
    by simp_all
  define e where "e = exponent53 (k * d) d"
  have "real_of_int (k * d) / real_of_int d = real_of_int k"
    using assms(1) by simp
  then have normal: "2 ^ 52 \<le> real_of_int k * 2 powi (- e)"
    using exponent53_normal [OF n assms(1)] by (simp only: e_def)
  have e: "e \<le> 0"
  proof (rule ccontr)
    assume "\<not> e \<le> 0"
    then have "1 \<le> e"
      by simp
    then have "(2::real) powi (- e) \<le> 2 powi (- 1)"
      by (intro power_int_increasing) simp_all
    then have "real_of_int k * 2 powi (- e) \<le> real_of_int k * (1 / 2)"
      using k by (intro mult_left_mono) simp_all
    moreover have "real_of_int k < 2 ^ 53"
      using assms(3) by (metis of_int_less_iff of_int_numeral of_int_power)
    ultimately show False
      using normal by simp
  qed
  then have s: "scaled (k * d) d e = (k * 2 ^ nat (- e) * d, d)"
    by (cases "e = 0") (simp_all add: scaled_def)
  have p: "(2::real) ^ nat (- e) * 2 powi e = 1"
  proof -
    have "(2::real) ^ nat (- e) = 2 powi (- e)"
      using e by (simp add: power_int_nonneg_exp)
    then show ?thesis
      by (simp add: power_int_add [symmetric])
  qed
  have ne: "k * d \<noteq> 0"
    using k assms(1) by simp
  have "valof (round53 (k * d) d) =
      real_of_int (roundHalfEven (k * 2 ^ nat (- e) * d) d) * 2 powi e"
    using valof_round53 [OF ne s [unfolded e_def]] by (simp only: e_def)
  then have "valof (round53 (k * d) d) = real_of_int (k * 2 ^ nat (- e)) * 2 powi e"
    by (simp only: roundHalfEven_exact [OF assms(1)])
  also have "\<dots> = real_of_int k * ((2::real) ^ nat (- e) * 2 powi e)"
    by simp
  finally show ?thesis
    using n by (simp add: p round64_def)
qed

lemma f64_less_iff: "f64_less a b \<longleftrightarrow> valof a < valof b"
proof -
  have "valof a < valof b \<longleftrightarrow>
      real_of_int (numer a) * 2 ^ scale b < real_of_int (numer b) * 2 ^ scale a"
    by (simp add: valof_def field_simps)
  also have "\<dots> \<longleftrightarrow> real_of_int (numer a * 2 ^ scale b) < real_of_int (numer b * 2 ^ scale a)"
    by simp
  also have "\<dots> \<longleftrightarrow> f64_less a b"
    by (simp only: of_int_less_iff f64_less_def)
  finally show ?thesis
    by simp
qed

lemma f64_mul_error:
  "\<bar>valof (f64_mul a b) - valof a * valof b\<bar> \<le> \<bar>valof a * valof b\<bar> / 2 ^ 53"
proof -
  have "real_of_int (numer a * numer b) / real_of_int (2 ^ (scale a + scale b)) = valof a * valof b"
    by (simp add: valof_def power_add)
  then show ?thesis
    using round64_error [of "2 ^ (scale a + scale b)" "numer a * numer b"]
    by (simp add: f64_mul_def)
qed

lemma f64_sub_error:
  "\<bar>valof (f64_sub a b) - (valof a - valof b)\<bar> \<le> \<bar>valof a - valof b\<bar> / 2 ^ 53"
proof -
  have "real_of_int (numer a * 2 ^ scale b - numer b * 2 ^ scale a) /
      real_of_int (2 ^ (scale a + scale b)) = valof a - valof b"
    by (simp add: valof_def power_add field_simps)
  then show ?thesis
    using round64_error [of "2 ^ (scale a + scale b)" "numer a * 2 ^ scale b - numer b * 2 ^ scale a"]
    by (simp add: f64_sub_def)
qed

lemma f64_div_error:
  assumes "0 < valof b"
  shows "\<bar>valof (f64_div a b) - valof a / valof b\<bar> \<le> \<bar>valof a / valof b\<bar> / 2 ^ 53"
proof -
  have b: "0 < numer b"
    using assms by (simp add: valof_def zero_less_divide_iff)
  have "real_of_int (numer a * 2 ^ scale b) / real_of_int (numer b * 2 ^ scale a) = valof a / valof b"
    by (simp add: valof_def)
  then show ?thesis
    using b round64_error [of "numer b * 2 ^ scale a" "numer a * 2 ^ scale b"]
    by (simp add: f64_div_def)
qed

lemma f64_add_exact:
  assumes "valof a = real_of_int i" and "valof b = real_of_int j" and "0 \<le> i + j" and "i + j < 2 ^ 53"
  shows "valof (f64_add a b) = real_of_int (i + j)"
proof -
  have "real_of_int (numer a) = real_of_int (i * 2 ^ scale a)"
    "real_of_int (numer b) = real_of_int (j * 2 ^ scale b)"
    using assms(1,2) by (simp_all add: valof_def field_simps)
  then have "numer a = i * 2 ^ scale a" "numer b = j * 2 ^ scale b"
    by (simp_all only: of_int_eq_iff)
  then have "numer a * 2 ^ scale b + numer b * 2 ^ scale a = (i + j) * 2 ^ (scale a + scale b)"
    by (simp add: power_add algebra_simps)
  then show ?thesis
    using round64_exact [of "2 ^ (scale a + scale b)" "i + j"] assms(3,4)
    by (simp add: f64_add_def)
qed

section \<open>Properties of package distance\<close>

lemma sumRunes_exact:
  assumes "valof s = real_of_int k" and "0 \<le> k" and "k + int (sum_list str) < 2 ^ 53"
  shows "valof (sumRunes s str) = real_of_int (k + int (sum_list str))"
  using assms
proof (induction str arbitrary: s k)
  case Nil
  then show ?case
    by simp
next
  case (Cons chr str)
  have chr: "valof (f64_of_rune chr) = real_of_int (int chr)"
    by (simp add: f64_of_rune_def valof_def)
  have "valof (f64_add s (f64_of_rune chr)) = real_of_int (k + int chr)"
    using Cons.prems by (intro f64_add_exact [OF _ chr]) simp_all
  from Cons.IH [OF this] Cons.prems show ?case
    by (simp add: add.assoc)
qed

lemma sumRunes_sum_list:
  assumes "sum_list str < 2 ^ 53"
  shows "valof (sumRunes (Float64 0 0) str) = real (sum_list str)"
proof -
  have "int (sum_list str) < 2 ^ 53"
    using assms by (metis of_nat_less_iff of_nat_numeral of_nat_power)
  then show ?thesis
    using sumRunes_exact [of "Float64 0 0" 0 str] by (simp add: valof_def)
qed

lemma distance_error:
  fixes q qh ph rh :: real
  assumes q: "0 \<le> q" "q < 1"
    and qh: "\<bar>qh - q\<bar> \<le> \<bar>q\<bar> / 2 ^ 53"
    and ph: "\<bar>ph - qh * 100\<bar> \<le> \<bar>qh * 100\<bar> / 2 ^ 53"
    and rh: "\<bar>rh - (100 - ph)\<bar> \<le> \<bar>100 - ph\<bar> / 2 ^ 53"
  shows "\<bar>rh - 100 * (1 - q)\<bar> \<le> 1 / 2 ^ 44"
proof -
  have 1: "\<bar>qh - q\<bar> \<le> 1 / 2 ^ 53"
    using q qh by simp
  have small: "(1::real) / 2 ^ 53 \<le> 1 / 100"
    by simp
  have qh100: "\<bar>qh * 100\<bar> \<le> 101"
    using q 1 small by linarith
  with ph have 2: "\<bar>ph - qh * 100\<bar> \<le> 101 / 2 ^ 53"
    by simp
  have "(101::real) / 2 ^ 53 \<le> 1"
    by simp
  with 2 qh100 have "\<bar>100 - ph\<bar> \<le> 202"
    by linarith
  with rh have 3: "\<bar>rh - (100 - ph)\<bar> \<le> 202 / 2 ^ 53"
    by simp
  have "rh - 100 * (1 - q) = (rh - (100 - ph)) - (ph - qh * 100) - 100 * (qh - q)"
    by simp
  then have "\<bar>rh - 100 * (1 - q)\<bar> \<le> \<bar>rh - (100 - ph)\<bar> + \<bar>ph - qh * 100\<bar> + 100 * \<bar>qh - q\<bar>"
    by (simp add: abs_if)
  also have "\<dots> \<le> 202 / 2 ^ 53 + 101 / 2 ^ 53 + 100 * (1 / 2 ^ 53)"
    using 1 2 3 by (intro add_mono mult_left_mono) simp_all
  also have "\<dots> \<le> 1 / 2 ^ 44"
    by simp
  finally show ?thesis .
qed

lemma Approx_greater:
  assumes "valof a < valof b" and "0 \<le> valof a"
  shows "\<bar>valof (f64_sub (Float64 100 0) (f64_mul (f64_div a b) (Float64 100 0))) -
          100 * (1 - valof a / valof b)\<bar> \<le> 1 / 2 ^ 44"
proof -
  have b: "0 < valof b"
    using assms by simp
  have hundred: "valof (Float64 100 0) = 100"
    by (simp add: valof_def)
  show ?thesis
  proof (rule distance_error)
    show "0 \<le> valof a / valof b" "valof a / valof b < 1"
      using assms b by simp_all
    show "\<bar>valof (f64_div a b) - valof a / valof b\<bar> \<le> \<bar>valof a / valof b\<bar> / 2 ^ 53"
      by (rule f64_div_error [OF b])
    show "\<bar>valof (f64_mul (f64_div a b) (Float64 100 0)) - valof (f64_div a b) * 100\<bar>
        \<le> \<bar>valof (f64_div a b) * 100\<bar> / 2 ^ 53"
      using f64_mul_error [of "f64_div a b" "Float64 100 0"] by (simp only: hundred)
    show "\<bar>valof (f64_sub (Float64 100 0) (f64_mul (f64_div a b) (Float64 100 0))) -
          (100 - valof (f64_mul (f64_div a b) (Float64 100 0)))\<bar>
        \<le> \<bar>100 - valof (f64_mul (f64_div a b) (Float64 100 0))\<bar> / 2 ^ 53"
      using f64_sub_error [of "Float64 100 0" "f64_mul (f64_div a b) (Float64 100 0)"]
      by (simp only: hundred)
  qed
qed

text \<open>
  C1 (as amended). For two strings whose sums of code points are below \<open>2 ^ 53\<close>,
  \<open>Approx\<close> returns 0 when the two sums are equal (also when both strings are empty), and
  otherwise \<open>100 * (1 - min sum1 sum2 / max sum1 sum2)\<close> up to the rounding of float64:
  the value returned is within \<open>2 ^ -44\<close> of it.
\<close>

theorem Approx_formula:
  assumes "sum_list str1 < 2 ^ 53" and "sum_list str2 < 2 ^ 53"
  shows "(sum_list str1 = sum_list str2 \<longrightarrow> valof (Approx str1 str2) = 0) \<and>
         (sum_list str1 \<noteq> sum_list str2 \<longrightarrow>
            \<bar>valof (Approx str1 str2) -
              100 * (1 - min (real (sum_list str1)) (real (sum_list str2)) /
                         max (real (sum_list str1)) (real (sum_list str2)))\<bar> \<le> 1 / 2 ^ 44)"
proof -
  define a b where "a = sumRunes (Float64 0 0) str1" and "b = sumRunes (Float64 0 0) str2"
  have a: "valof a = real (sum_list str1)" and b: "valof b = real (sum_list str2)"
    using assms by (simp_all add: a_def b_def sumRunes_sum_list)
  consider "sum_list str1 = sum_list str2" | "sum_list str2 < sum_list str1" | "sum_list str1 < sum_list str2"
    by linarith
  then show ?thesis
  proof cases
    case 1
    then show ?thesis
      using a b by (simp add: Approx_def f64_less_iff a_def [symmetric] b_def [symmetric] valof_def)
  next
    case 2
    then have "valof b < valof a" "0 \<le> valof b"
      using a b by simp_all
    from Approx_greater [OF this] 2 show ?thesis
      using a b by (simp add: Approx_def f64_less_iff a_def [symmetric] b_def [symmetric] min_def max_def)
  next
    case 3
    then have "valof a < valof b" "0 \<le> valof a"
      using a b by simp_all
    from Approx_greater [OF this] 3 show ?thesis
      using a b by (simp add: Approx_def f64_less_iff a_def [symmetric] b_def [symmetric] min_def max_def)
  qed
qed

lemma bitlen_pos: "0 < x \<Longrightarrow> bitlen x = bitlen (x div 2) + 1"
  using compute_bitlen [of x] by simp

lemmas f64_defs =
  valof_def roundHalfEven_def scaled_def exponent53_def round53_def f64_neg_def round64_def
  f64_add_def f64_sub_def f64_mul_def f64_div_def f64_less_def f64_of_rune_def Approx_def Let_def
  bitlen_pos

text \<open>The strings \<^verbatim>\<open>ab\<close> and \<^verbatim>\<open>abc\<close> (sums 195 and 294), two empty strings, and \<^verbatim>\<open>ab\<close>
  and \<^verbatim>\<open>ba\<close>.\<close>

theorem Approx_formula_witness:
  "\<bar>valof (Approx (lit ''ab'') (lit ''abc'')) - 100 * (1 - 195 / 294)\<bar> \<le> 1 / 2 ^ 44 \<and>
   valof (Approx [] []) = 0 \<and> valof (Approx (lit ''ab'') (lit ''ba'')) = 0"
proof -
  have small: "sum_list (lit ''ab'') < 2 ^ 53" "sum_list (lit ''abc'') < 2 ^ 53"
    "sum_list (lit ''ba'') < 2 ^ 53" "sum_list ([]::gostring) < 2 ^ 53"
    by (simp_all add: lit_Nil lit_Cons)
  show ?thesis
    using Approx_formula [OF small(1) small(2)] Approx_formula [OF small(4) small(4)]
      Approx_formula [OF small(1) small(3)]
    by (simp add: lit_Nil lit_Cons)
qed

text \<open>
  C1 as stated says that \<open>Approx\<close> returns \<open>100 * (1 - min sum1 sum2 / max sum1 sum2)\<close>.
  For the strings \<^verbatim>\<open>d\<close> and \<^verbatim>\<open>9\<close> (code points 100 and 57) the formula is 43; the
  quotient, the product and the difference are rounded, and \<open>Approx\<close> returns
  \<open>43 + 2 ^ -47\<close>.
\<close>

theorem Approx_rounds:
  "valof (Approx (lit ''d'') (lit ''9'')) = 43 + 1 / 2 ^ 47 \<and>
   100 * (1 - min (real (sum_list (lit ''d''))) (real (sum_list (lit ''9''))) /
              max (real (sum_list (lit ''d''))) (real (sum_list (lit ''9'')))) = 43"
  by (simp add: lit_Nil lit_Cons f64_defs)

section \<open>Properties of package strip\<close>

lemma dropDigits_filter:
  "dropDigits nd newSel d = newSel @ filter (\<lambda>chr. \<not> IsDigit nd chr) d"
  by (induction d arbitrary: newSel) simp_all

text \<open>
  C9. The numbers transform is idempotent: for every document tree, \<open>Numbers\<close> applied
  twice gives the same tree as \<open>Numbers\<close> applied once.
\<close>

theorem Numbers_idempotent: "Numbers nd (Numbers nd doc) = Numbers nd doc"
  by (induction doc) (simp add: dropDigits_filter)

lemma Scripts_unchanged: "Scripts doc = doc"
  by (induction doc) (simp add: map_idI)

text \<open>
  C5. \<open>Scripts\<close> is to remove every script element with its subtree, so that no script
  element remains. On the page \<open>scriptPage\<close>, which has a script element in its body, it
  returns the page as it was: the script element remains.
\<close>

theorem Scripts_keeps_script:
  "hasScript scriptPage \<and> Scripts scriptPage = scriptPage \<and> hasScript (Scripts scriptPage)"
  by (simp add: scriptPage_def plainDoc_def lit_Nil lit_Cons)

section \<open>Properties of package page\<close>

text \<open>
  C6. \<open>UrlAsFilename\<close> is to be injective on (host, path, query). The addresses
  \<^verbatim>\<open>http://example.org/a?b\<close> and \<^verbatim>\<open>http://example.org/ab\<close> differ in path and query
  and have the same file name \<^verbatim>\<open>example.org/ab\<close>.
\<close>

theorem UrlAsFilename_collision:
  "(Host (ReqUrl pageQuery), Path (ReqUrl pageQuery), RawQuery (ReqUrl pageQuery)) \<noteq>
   (Host (ReqUrl pagePath), Path (ReqUrl pagePath), RawQuery (ReqUrl pagePath)) \<and>
   UrlAsFilename pageQuery = UrlAsFilename pagePath"
  by (simp add: pageQuery_def pagePath_def UrlAsFilename_def lit_Nil lit_Cons)

lemma joinMatches_concat:
  "joinMatches selection result = selection @ concat (map (\<lambda>res. res @ Newline) result)"
  by (induction result arbitrary: selection) simp_all

text \<open>
  C8. With an inclusion pattern that is set and compiles, the regular-expression stage of
  \<open>makeSelection\<close> returns the matches that \<^verbatim>\<open>FindAllString\<close> finds in the text, in
  order, each followed by a newline; no match gives the empty string.
\<close>

theorem regexpStage_matches:
  assumes "Regexp (Settings p) \<noteq> []"
    and "regexp_Compile x (Regexp (Settings p)) = Inr re"
  shows "regexpStage x p text =
           Inr (concat (map (\<lambda>res. res @ Newline) (FindAllString re text))) \<and>
         (FindAllString re text = [] \<longrightarrow> regexpStage x p text = Inr [])"
  using assms by (simp add: regexpStage_def joinMatches_concat)

lemma love_compile:
  "regexp_Compile exampleExt (Regexp (Settings emptyPage)) =
     Inr \<lparr>FindAllString = findLiteral (lit ''love''),
          ReplaceAllString = replaceLiteral (lit ''love'')\<rparr>"
  by (simp add: emptyPage_def example_defs literalCompile_def Let_def)

text \<open>The pattern \<^verbatim>\<open>(love)\<close> on \<^verbatim>\<open>I love cats, love dogs\<close>, and on a text without a match.\<close>

theorem regexpStage_matches_witness:
  "regexpStage exampleExt emptyPage (lit ''I love cats, love dogs'') =
     Inr (lit ''love'' @ Newline @ lit ''love'' @ Newline) \<and>
   regexpStage exampleExt emptyPage (lit ''Post #'') = Inr []"
proof -
  have ne: "Regexp (Settings emptyPage) \<noteq> []"
    by (simp add: emptyPage_def example_defs)
  show ?thesis
    using regexpStage_matches [OF ne love_compile, of "lit ''I love cats, love dogs''"]
      regexpStage_matches [OF ne love_compile, of "lit ''Post #''"]
    by (simp add: lit_Nil lit_Cons)
qed

subsection \<open>Files, the download and the path names\<close>

lemma WriteFile_Inr:
  "WriteFile name data w = Inr w' \<longleftrightarrow> \<not> unwritable w name \<and> w' = w\<lparr>files := (files w)(name \<mapsto> data)\<rparr>"
  by (auto simp: WriteFile_def)

lemma WriteFile_Inl: "WriteFile name data w = Inl e \<longleftrightarrow> unwritable w name \<and> e = PathError name"
  by (auto simp: WriteFile_def)

lemma ReadFile_NotExist:
  "ReadFile name w = Inl err \<and> IsNotExist err \<longleftrightarrow>
     \<not> unreadable w name \<and> files w name = None \<and> err = NotExist name"
  by (auto simp: ReadFile_def split: option.splits)


lemma selectDownload_world: "selectDownload x p w = (r, w') \<Longrightarrow> w' = w\<lparr>clock := clock w'\<rparr>"
  by (auto simp: selectDownload_def errWrapDownload_def Let_def split: prod.splits sum.splits if_splits)

lemma selectDownload_fields:
  assumes "selectDownload x p w = (r, w')"
  shows "files w' = files w" "unreadable w' = unreadable w" "unwritable w' = unwritable w"
    "Updates w' = Updates w" "stdout w' = stdout w" "outbox w' = outbox w"
  using selectDownload_world [OF assms] by (metis world.select_convs world.surjective world.update_convs(1))+

lemma verbose_fields:
  "clock (verbose s a b w) = clock w" "files (verbose s a b w) = files w"
  "unreadable (verbose s a b w) = unreadable w" "unwritable (verbose s a b w) = unwritable w"
  "Updates (verbose s a b w) = Updates w" "outbox (verbose s a b w) = outbox w"
  "stdout (verbose s a b w) = stdout w @ (if Verbose s then [a @ lit '' '' @ b] else [])"
  by (simp_all add: verbose_def)

lemma path_lengths:
  "length (cachePathName s lp) = length (NyfikenRoot s) + length lp + 11"
  "length (readPathName s lp) = length (NyfikenRoot s) + length lp + 10"
  "length (debugCachePathName s lp) = length (NyfikenRoot s) + length lp + 17"
  "length (debugReadPathName s lp) = length (NyfikenRoot s) + length lp + 16"
  by (simp_all add: cachePathName_def readPathName_def debugCachePathName_def debugReadPathName_def
      CacheRoot_def ReadRoot_def DebugCacheRoot_def DebugReadRoot_def lit_def)

lemma paths_distinct:
  "cachePathName s lp \<noteq> readPathName s lp" "cachePathName s lp \<noteq> debugCachePathName s lp"
  "cachePathName s lp \<noteq> debugReadPathName s lp" "readPathName s lp \<noteq> cachePathName s lp"
  "debugCachePathName s lp \<noteq> cachePathName s lp" "debugReadPathName s lp \<noteq> cachePathName s lp"
  using path_lengths [of s lp] by (metis add_left_cancel numeral_eq_iff semiring_norm(88,89,90) num.distinct)+


lemma check_reaches_compare:
  assumes "selectDownload x p (verbose s (lit ''[/] Downloading:'') (URL_String x (ReqUrl p)) w) = (Inr node, w1)"
    and "makeSelection x p node = Inr selection"
    and "selection \<noteq> []"
    and "filename_Encode x (UrlAsFilename p) = Inr linuxPath"
    and "RenderClean x node = Inr debug"
    and "\<not> unwritable w (debugCachePathName s linuxPath)"
  shows "check x s p w =
           check_compare x s p node selection linuxPath debug
             (w1\<lparr>files := (files w1)(debugCachePathName s linuxPath \<mapsto> debug)\<rparr>)"
  using assms selectDownload_fields [OF assms(1)] by (simp add: check_def WriteFile_def verbose_fields)

subsection \<open>The first check of a page\<close>

lemma check_newSite_result:
  assumes "check_newSite x s p selection lp debug w = (result, w')"
  shows "Updates w' = Updates w \<and> outbox w' = outbox w \<and>
     (if unwritable w (cachePathName s lp) \<or> unwritable w (readPathName s lp) \<or>
         unwritable w (debugReadPathName s lp)
      then result = Some (Err (PathError (firstUnwritable w
             [cachePathName s lp, readPathName s lp, debugReadPathName s lp]))) \<and>
           stdout w' = stdout w
      else result = None \<and> files w' (cachePathName s lp) = Some selection \<and>
           stdout w' = stdout w @ (if Verbose s then [lit ''[+] New site added:'' @ lit '' '' @ URL_String x (ReqUrl p)] else []))"
  using assms paths_distinct [of s lp]
  by (auto simp: check_newSite_def WriteFile_def verbose_def firstUnwritable_def split: if_splits)

text \<open>
  C2 (as amended). For a page without a comparison file, a check that reaches the
  comparison flags no update and sends no mail. If the comparison file, the read file and
  the debug read file can be written, the snapshot becomes the comparison file, the page
  is reported as a new site and the check returns nil; if one of them cannot be written,
  the check returns the error of that write and reports nothing.
\<close>

theorem check_first_time:
  assumes "selectDownload x p (verbose s (lit ''[/] Downloading:'') (URL_String x (ReqUrl p)) w) = (Inr node, w1)"
    and "makeSelection x p node = Inr selection"
    and "selection \<noteq> []"
    and "filename_Encode x (UrlAsFilename p) = Inr linuxPath"
    and "RenderClean x node = Inr debug"
    and "\<not> unwritable w (debugCachePathName s linuxPath)"
    and "ReadFile (cachePathName s linuxPath) w = Inl err"
    and "IsNotExist err"
    and "check x s p w = (result, w')"
  shows "Updates w' = Updates w \<and> outbox w' = outbox w \<and>
     (if unwritable w (cachePathName s linuxPath) \<or> unwritable w (readPathName s linuxPath) \<or>
         unwritable w (debugReadPathName s linuxPath)
      then result = Some (Err (PathError (firstUnwritable w
             [cachePathName s linuxPath, readPathName s linuxPath,
              debugReadPathName s linuxPath]))) \<and>
           stdout w' = stdout w @
             (if Verbose s then [lit ''[/] Downloading:'' @ lit '' '' @ URL_String x (ReqUrl p)] else [])
      else result = None \<and> files w' (cachePathName s linuxPath) = Some selection \<and>
           stdout w' = stdout w @
             (if Verbose s then [lit ''[/] Downloading:'' @ lit '' '' @ URL_String x (ReqUrl p),
                                 lit ''[+] New site added:'' @ lit '' '' @ URL_String x (ReqUrl p)]
              else []))"
proof -
  let ?w2 = "w1\<lparr>files := (files w1)(debugCachePathName s linuxPath \<mapsto> debug)\<rparr>"
  note w1 = selectDownload_fields [OF assms(1), unfolded verbose_fields]
  have absent: "\<not> unreadable w (cachePathName s linuxPath)" "files w (cachePathName s linuxPath) = None"
    "err = NotExist (cachePathName s linuxPath)"
    using ReadFile_NotExist [of "cachePathName s linuxPath" w err] assms(7,8) by simp_all
  have "ReadFile (cachePathName s linuxPath) ?w2 = Inl (NotExist (cachePathName s linuxPath))"
    using absent w1 paths_distinct [of s linuxPath] by (simp add: ReadFile_def)
  then have "check x s p w = check_newSite x s p selection linuxPath debug ?w2"
    using check_reaches_compare [OF assms(1-6)] by (simp add: check_compare_def)
  with assms(9) have "check_newSite x s p selection linuxPath debug ?w2 = (result, w')"
    by simp
  from check_newSite_result [OF this] w1 show ?thesis
    by (simp add: firstUnwritable_def split: if_splits)
qed

lemmas check_defs =
  check_def check_compare_def check_newSite_def check_updated_def check_mail_def mailPage_def
  mailSet_def selectDownload_def errWrapDownload_def verbose_def WriteFile_def ReadFile_def
  SaveUpdates_def makeSelection_def cssSelection_def regexpStage_def negexpStage_def
  applyStrip_def HTML_def UrlAsFilename_def cachePathName_def readPathName_def
  debugCachePathName_def debugReadPathName_def CacheRoot_def ReadRoot_def DebugCacheRoot_def
  DebugReadRoot_def UpdatesPath_def IsDigit_def

lemma example_selection: "makeSelection exampleExt examplePage examplePost = Inr (lit ''Post #'' @ Newline)"
  by (simp add: example_defs check_defs)

lemma example_download:
  "selectDownload exampleExt examplePage
     (verbose exampleSettings (lit ''[/] Downloading:'') (URL_String exampleExt (ReqUrl examplePage)) w) =
   (Inr examplePost,
    (verbose exampleSettings (lit ''[/] Downloading:'') (URL_String exampleExt (ReqUrl examplePage)) w)
      \<lparr>clock := clock w + 2 * Second\<rparr>)"
  by (simp add: selectDownload_def errWrapDownload_def exampleExt_def verbose_def exampleSettings_def
      TimeoutDuration_def Second_def)

lemma example_encode:
  "filename_Encode exampleExt (UrlAsFilename examplePage) = Inr (lit ''example.org%2Fforum'')"
  by (simp add: example_defs UrlAsFilename_def)

lemma example_debug: "RenderClean exampleExt examplePost = Inr (lit ''Post #123'')"
  by (simp add: example_defs)

lemma example_cachePath: "cachePathName exampleSettings (lit ''example.org%2Fforum'') = exampleCachePath"
  by (simp add: example_defs cachePathName_def CacheRoot_def)

lemma example_url: "URL_String exampleExt (ReqUrl examplePage) = lit ''http://example.org/forum''"
  by (simp add: example_defs)

lemma example_verbose: "Verbose exampleSettings"
  by (simp add: exampleSettings_def)

lemma emptyWorld_fields:
  "\<not> unwritable emptyWorld name" "\<not> unreadable emptyWorld name" "files emptyWorld = Map.empty"
  "Updates emptyWorld = Map.empty" "outbox emptyWorld = []" "stdout emptyWorld = []"
  by (simp_all add: emptyWorld_def)

text \<open>The first check of the example page, in a world without files.\<close>

theorem check_first_time_witness:
  "fst (check exampleExt exampleSettings examplePage emptyWorld) = None \<and>
   files (snd (check exampleExt exampleSettings examplePage emptyWorld)) exampleCachePath =
     Some (lit ''Post #'' @ Newline) \<and>
   Updates (snd (check exampleExt exampleSettings examplePage emptyWorld)) = Map.empty \<and>
   outbox (snd (check exampleExt exampleSettings examplePage emptyWorld)) = [] \<and>
   stdout (snd (check exampleExt exampleSettings examplePage emptyWorld)) =
     [lit ''[/] Downloading:'' @ lit '' '' @ lit ''http://example.org/forum'',
      lit ''[+] New site added:'' @ lit '' '' @ lit ''http://example.org/forum'']"
proof -
  have nonempty: "lit ''Post #'' @ Newline \<noteq> []"
    by (simp add: lit_Cons)
  have absent: "ReadFile (cachePathName exampleSettings (lit ''example.org%2Fforum'')) emptyWorld =
      Inl (NotExist exampleCachePath)"
    by (simp add: ReadFile_def emptyWorld_fields example_cachePath)
  have notExist: "IsNotExist (NotExist exampleCachePath)"
    by simp
  have run: "check exampleExt exampleSettings examplePage emptyWorld =
      (fst (check exampleExt exampleSettings examplePage emptyWorld),
       snd (check exampleExt exampleSettings examplePage emptyWorld))"
    by simp
  show ?thesis
    using check_first_time [OF example_download example_selection nonempty example_encode
        example_debug emptyWorld_fields(1) absent notExist run]
    by (simp add: example_cachePath example_url example_verbose emptyWorld_fields)
qed

text \<open>
  C2 as stated says that such a check always writes the comparison file and returns nil.
  With the cache directory missing, the read of the comparison file fails with not-exist,
  the write fails as well, and the check returns the error of the write.
\<close>

theorem check_first_time_write_fails:
  "ReadFile exampleCachePath noCacheDir = Inl (NotExist exampleCachePath) \<and>
   fst (check exampleExt exampleSettings examplePage noCacheDir) = Some (Err (PathError exampleCachePath)) \<and>
   files (snd (check exampleExt exampleSettings examplePage noCacheDir)) exampleCachePath = None"
  by (simp add: noCacheDir_def example_defs check_defs)

subsection \<open>The empty selection\<close>

text \<open>
  C4 (as amended). A check whose selection is the empty string returns an error and does
  not reach the comparison: no update is flagged, no mail is sent, no file but the debug
  file changes, and nothing but the download is reported. The error is
  \<^verbatim>\<open>Update was empty\<close> when the file name, the rendering of the page and the debug file
  succeed; otherwise it is the error of the first of these steps that fails.
\<close>

theorem check_empty_selection:
  assumes "selectDownload x p (verbose s (lit ''[/] Downloading:'') (URL_String x (ReqUrl p)) w) = (Inr node, w1)"
    and "makeSelection x p node = Inr []"
    and "check x s p w = (result, w')"
  shows "result \<noteq> None \<and>
     result =
       (case filename_Encode x (UrlAsFilename p) of
          Inl err \<Rightarrow> Some (Err err)
        | Inr linuxPath \<Rightarrow>
           (case RenderClean x node of
              Inl err \<Rightarrow> Some (Err err)
            | Inr debug \<Rightarrow>
               if unwritable w (debugCachePathName s linuxPath)
               then Some (Err (PathError (debugCachePathName s linuxPath)))
               else Some (NewNoPosf (lit ''Update was empty. URL: '' @ URL_String x (ReqUrl p))))) \<and>
     Updates w' = Updates w \<and> outbox w' = outbox w \<and>
     stdout w' = stdout w @
       (if Verbose s then [lit ''[/] Downloading:'' @ lit '' '' @ URL_String x (ReqUrl p)] else []) \<and>
     (\<forall>name. files w' name \<noteq> files w name \<longrightarrow>
        (\<exists>linuxPath. filename_Encode x (UrlAsFilename p) = Inr linuxPath \<and>
           name = debugCachePathName s linuxPath))"
proof -
  note w1 = selectDownload_fields [OF assms(1), unfolded verbose_fields]
  show ?thesis
  proof (cases "filename_Encode x (UrlAsFilename p)")
    case (Inl e)
    with assms w1 show ?thesis
      by (auto simp: check_def)
  next
    case enc: (Inr linuxPath)
    show ?thesis
    proof (cases "RenderClean x node")
      case (Inl e)
      with assms w1 enc show ?thesis
        by (auto simp: check_def)
    next
      case dbg: (Inr debug)
      show ?thesis
      proof (cases "unwritable w (debugCachePathName s linuxPath)")
        case True
        with assms w1 enc dbg show ?thesis
          by (auto simp: check_def WriteFile_def)
      next
        case False
        with assms w1 enc dbg show ?thesis
          by (auto simp: check_def WriteFile_def split: if_splits)
      qed
    qed
  qed
qed

lemma empty_selection: "makeSelection exampleExt emptyPage examplePost = Inr []"
  by (simp add: emptyPage_def example_defs check_defs literalCompile_def Let_def)

lemma emptyPage_fields:
  "ReqUrl emptyPage = ReqUrl examplePage" "UrlAsFilename emptyPage = UrlAsFilename examplePage"
  by (simp_all add: emptyPage_def UrlAsFilename_def)

lemma emptyPage_download:
  "selectDownload exampleExt emptyPage
     (verbose exampleSettings (lit ''[/] Downloading:'') (URL_String exampleExt (ReqUrl emptyPage)) w) =
   (Inr examplePost,
    (verbose exampleSettings (lit ''[/] Downloading:'') (URL_String exampleExt (ReqUrl emptyPage)) w)
      \<lparr>clock := clock w + 2 * Second\<rparr>)"
  by (simp add: selectDownload_def errWrapDownload_def exampleExt_def verbose_def exampleSettings_def
      TimeoutDuration_def Second_def)

text \<open>A page whose regular expression matches nothing, checked once before.\<close>

theorem check_empty_selection_witness:
  "fst (check exampleExt exampleSettings emptyPage checkedWorld) =
     Some (NewNoPosf (lit ''Update was empty. URL: '' @ lit ''http://example.org/forum'')) \<and>
   files (snd (check exampleExt exampleSettings emptyPage checkedWorld)) exampleCachePath =
     Some oldBaseline \<and>
   stdout (snd (check exampleExt exampleSettings emptyPage checkedWorld)) =
     [lit ''[/] Downloading:'' @ lit '' '' @ lit ''http://example.org/forum'']"
proof -
  have run: "check exampleExt exampleSettings emptyPage checkedWorld =
      (fst (check exampleExt exampleSettings emptyPage checkedWorld),
       snd (check exampleExt exampleSettings emptyPage checkedWorld))"
    by simp
  have writable: "\<not> unwritable checkedWorld name" for name
    by (simp add: checkedWorld_def emptyWorld_def)
  have old: "files checkedWorld exampleCachePath = Some oldBaseline" "stdout checkedWorld = []"
    by (simp_all add: checkedWorld_def emptyWorld_def)
  have other: "exampleCachePath \<noteq> debugCachePathName exampleSettings (lit ''example.org%2Fforum'')"
    using paths_distinct(2) [of exampleSettings "lit ''example.org%2Fforum''"]
    by (simp add: example_cachePath)
  note r = check_empty_selection [OF emptyPage_download empty_selection run]
  from r have "files (snd (check exampleExt exampleSettings emptyPage checkedWorld)) exampleCachePath =
      files checkedWorld exampleCachePath"
    using other example_encode by (auto simp: emptyPage_fields)
  with r show ?thesis
    using example_encode example_debug writable
    by (simp add: emptyPage_fields example_url example_verbose old)
qed

text \<open>
  C4 as stated says that the error is always the one of the empty selection. With the
  directory of the debug files missing, the selection is empty and the check returns the
  error of the write of the debug file, which comes before the test of the selection.
\<close>

theorem check_empty_selection_debug_fails:
  "makeSelection exampleExt emptyPage examplePost = Inr [] \<and>
   fst (check exampleExt exampleSettings emptyPage noDebugDir) =
     Some (Err (PathError (debugCachePathName exampleSettings (lit ''example.org%2Fforum'')))) \<and>
   fst (check exampleExt exampleSettings emptyPage noDebugDir) \<noteq>
     Some (NewNoPosf (lit ''Update was empty. URL: '' @ URL_String exampleExt (ReqUrl emptyPage)))"
  by (simp add: noDebugDir_def emptyPage_def example_defs check_defs literalCompile_def Let_def)

subsection \<open>An update\<close>



















subsection \<open>The timeout\<close>

text \<open>With a goroutine that is scheduled within the timeout, the \<^verbatim>\<open>select\<close> always
  takes the result of the download, and never before the download has returned.\<close>

lemma selectDownload_result:
  assumes "0 \<le> goDelay x" and "goDelay x < TimeoutDuration"
  shows "selectDownload x p w =
     (case snd (download x p) of Inl err \<Rightarrow> Inl (Err err) | Inr node \<Rightarrow> Inr node,
      w\<lparr>clock := clock w + fst (download x p) + goDelay x\<rparr>)"
  using assms
  by (auto simp: selectDownload_def errWrapDownload_def Let_def split: prod.splits sum.splits)

lemma selectDownload_waits:
  assumes "0 \<le> goDelay x" and "selectDownload x p w = (r, w')"
  shows "clock w + fst (download x p) \<le> clock w'"
  using assms
  by (auto simp: selectDownload_def errWrapDownload_def Let_def TimeoutDuration_def Second_def
      split: prod.splits sum.splits if_splits)

text \<open>
  C3. A download that takes longer than the timeout is to end the check with a timeout
  error after ten seconds. With a server that answers after eleven seconds, the check
  waits the eleven seconds and returns nil: the timer is started when the download has
  returned.
\<close>

theorem check_waits_for_download:
  "TimeoutDuration < fst (download slowExt examplePage) \<and>
   fst (check slowExt exampleSettings examplePage emptyWorld) = None \<and>
   clock (snd (check slowExt exampleSettings examplePage emptyWorld)) = 11 * Second"
  by (simp add: slowExt_def example_defs check_defs)

subsection \<open>ForceUpdate\<close>

lemma countChecks_length: "countChecks numChecks pages = numChecks + length pages"
  by (induction pages arbitrary: numChecks) simp_all

lemma length_runChecks: "length (fst (runChecks x s pages w)) = length pages"
proof (induction pages arbitrary: w)
  case Nil
  show ?case by simp
next
  case (Cons p pages)
  obtain err w' where c: "check x s p w = (err, w')"
    by (cases "check x s p w")
  obtain sent w'' where r: "runChecks x s pages w' = (sent, w'')"
    by (cases "runChecks x s pages w'")
  from Cons [of w'] r have "length sent = length pages"
    by simp
  with c r show ?case
    by simp
qed

lemma listen_all: "length ch \<le> n \<Longrightarrow> listen n ch lg = lg @ failures ch"
  by (induction n ch lg rule: listen.induct) (auto simp: failures_def split: option.splits)

text \<open>
  C10. \<open>ForceUpdate\<close> returns nil for every list of pages, whatever the checks return:
  the errors of the checks are logged by the receiving goroutine, all of them, and are not
  returned.
\<close>

theorem ForceUpdate_returns_nil:
  "returned (ForceUpdate x s pages w) = None \<and>
   logged (ForceUpdate x s pages w) = failures (fst (runChecks x s pages w))"
  using length_runChecks [of x s pages w]
  by (auto simp: ForceUpdate_def countChecks_length listen_all split: prod.splits)

end
